theory Spec2Isabelle
  imports Complex_Main "HOL-Library.Monad_Syntax" "HOL-Library.Sublist"
begin

section \<open>The healthcare dashboard: data model\<close>

text \<open>
  The program is one Python module, \<^verbatim>\<open>healthcare_dashbaord/app.py\<close>. It loads a CSV file
  into a pandas data frame \<^verbatim>\<open>df\<close>, computes two summary figures, builds the layout of the
  page and registers five callbacks, each of which filters \<^verbatim>\<open>df\<close> and hands the result to
  a plotly express call.

  Conventions of the embedding:
  \<^item> the table is \<^verbatim>\<open>df\<close> as \<^verbatim>\<open>load_data\<close> has returned it; a data frame is the list of its
    rows, in row order, and only the columns the module reads after the load are kept;
  \<^item> every cell may be missing: \<open>None\<close> is pandas' missing value (NaN, and NaT for a
    period), which an empty cell of the file becomes and which an unparsable billing
    amount becomes at load;
  \<^item> a billing amount that is present is a rational number, the value of the double;
    infinities are not modelled;
  \<^item> a monthly \<^verbatim>\<open>Period\<close> is its ordinal, the number of months since January 1970, which
    is how pandas stores and compares it;
  \<^item> a value arriving from a browser control is a \<^typ>\<open>string option\<close>: \<open>None\<close> is
    Python's \<^verbatim>\<open>None\<close>;
  \<^item> a figure is the plotly express call that builds it, with the data frame it was given.
\<close>

type_synonym period = int

record row =
  Age :: "int option"
  Gender :: "string option"
  Medical_Condition :: "string option"
  Insurance_Provider :: "string option"
  Billing_Amount :: "rat option"
  YearMonth :: "period option"

subsection \<open>Summary statistics\<close>

text \<open>\<^verbatim>\<open>num_records = len(df)\<close> (line 19).\<close>

definition num_records :: "row list \<Rightarrow> nat" where
  "num_records df = length df"

text \<open>
  \<^verbatim>\<open>Series.mean()\<close> skips NaN: the sum of the values present over their number, and NaN
  when no value is present.
\<close>

definition dropna :: "'a option list \<Rightarrow> 'a list" where
  "dropna cs = concat (map (\<lambda>c. case c of None \<Rightarrow> [] | Some v \<Rightarrow> [v]) cs)"

definition mean :: "rat option list \<Rightarrow> rat option" where
  "mean cs =
     (let vs = dropna cs
      in if vs = [] then None else Some (sum_list vs / of_nat (length vs)))"

text \<open>\<^verbatim>\<open>avg_billing = df['Billing Amount'].mean()\<close> (line 20).\<close>

definition avg_billing :: "row list \<Rightarrow> rat option" where
  "avg_billing df = mean (map Billing_Amount df)"

subsection \<open>Formatting\<close>

definition digit_char :: "nat \<Rightarrow> char" where
  "digit_char d = ''0123456789'' ! (d mod 10)"

fun dec :: "nat \<Rightarrow> string" where
  "dec n = (if n < 10 then [digit_char n] else dec (n div 10) @ [digit_char (n mod 10)])"

declare dec.simps [simp del]

text \<open>The thousands separator of the format \<^verbatim>\<open>,\<close>, on the reversed digits.\<close>

fun commas_rev :: "string \<Rightarrow> string" where
  "commas_rev (a # b # c # d # ds) = a # b # c # CHR '','' # commas_rev (d # ds)"
| "commas_rev ds = ds"

definition commas :: "string \<Rightarrow> string" where
  "commas ds = rev (commas_rev (rev ds))"

text \<open>The format specification \<^verbatim>\<open>:,\<close> on an integer, as in \<^verbatim>\<open>f'${int(value):,}'\<close>.\<close>

definition format_int_commas :: "int \<Rightarrow> string" where
  "format_int_commas i = (if i < 0 then ''-'' else '''') @ commas (dec (nat \<bar>i\<bar>))"

text \<open>
  The format specification \<^verbatim>\<open>:,.2f\<close> on a float. NaN prints as \<^verbatim>\<open>nan\<close>. The digits of a
  finite double are the work of Python's runtime and are the parameter \<open>format_finite\<close>.
\<close>

definition format_comma_2f :: "(rat \<Rightarrow> string) \<Rightarrow> rat option \<Rightarrow> string" where
  "format_comma_2f format_finite v =
     (case v of None \<Rightarrow> ''nan'' | Some q \<Rightarrow> format_finite q)"

text \<open>The two strings of the summary row of \<^verbatim>\<open>app.layout\<close> (lines 33 and 34).\<close>

definition total_records_text :: "row list \<Rightarrow> string" where
  "total_records_text df = ''Total Patient Records: '' @ dec (num_records df)"

definition average_billing_text :: "(rat \<Rightarrow> string) \<Rightarrow> row list \<Rightarrow> string" where
  "average_billing_text format_finite df =
     ''Average Billing Amount: $'' @ format_comma_2f format_finite (avg_billing df)"

subsection \<open>The layout\<close>

text \<open>
  \<^verbatim>\<open>app.layout\<close> (lines 26 to 116) is one expression, evaluated when the module is
  imported. Its parts that depend on the table are the two summary strings, the options of
  the two dropdowns and the arguments of the billing slider. An exception raised by any of
  them leaves the module without a layout.
\<close>

datatype py_error = ValueError

text \<open>\<^verbatim>\<open>Series.unique()\<close>: the values in the order in which they first occur.\<close>

fun unique :: "'a list \<Rightarrow> 'a list" where
  "unique [] = []"
| "unique (x # xs) = x # unique (filter (\<lambda>y. y \<noteq> x) xs)"

text \<open>\<^verbatim>\<open>Series.min()\<close> and \<^verbatim>\<open>Series.max()\<close> skip NaN, and are NaN when no value is present.\<close>

definition series_min :: "rat option list \<Rightarrow> rat option" where
  "series_min cs = (case dropna cs of [] \<Rightarrow> None | v # vs \<Rightarrow> Some (fold min vs v))"

definition series_max :: "rat option list \<Rightarrow> rat option" where
  "series_max cs = (case dropna cs of [] \<Rightarrow> None | v # vs \<Rightarrow> Some (fold max vs v))"

text \<open>
  \<^verbatim>\<open>Series.quantile([...])\<close>: each quantile is NaN when no value is present; otherwise it is
  interpolated between the values present. The interpolation on doubles is the work of
  numpy and is the parameter \<open>interpolate\<close>.
\<close>

definition quantile ::
  "(rat list \<Rightarrow> rat \<Rightarrow> rat) \<Rightarrow> rat option list \<Rightarrow> rat list \<Rightarrow> rat option list" where
  "quantile interpolate cs qs =
     map (\<lambda>q. case dropna cs of [] \<Rightarrow> None | v # vs \<Rightarrow> Some (interpolate (v # vs) q)) qs"

text \<open>\<^verbatim>\<open>int(value)\<close> on a float: NaN raises \<^verbatim>\<open>ValueError\<close>, a number is cut towards zero.\<close>

definition py_int :: "rat option \<Rightarrow> py_error + int" where
  "py_int v =
     (case v of
        None \<Rightarrow> Inl ValueError
      | Some q \<Rightarrow> Inr (if 0 \<le> q then \<lfloor>q\<rfloor> else \<lceil>q\<rceil>))"

text \<open>Storing under a key of a dictionary: a key that is there keeps its place.\<close>

fun dict_set :: "('k \<times> 'v) list \<Rightarrow> 'k \<Rightarrow> 'v \<Rightarrow> ('k \<times> 'v) list" where
  "dict_set [] k v = [(k, v)]"
| "dict_set ((k', v') # d) k v = (if k' = k then (k, v) # d else (k', v') # dict_set d k v)"

text \<open>
  The dictionary comprehension of line 84,
  \<^verbatim>\<open>{int(value): f'${int(value):,}' for value in ...quantile([0, 0.25, 0.5, 0.75, 1]).values}\<close>:
  the first value whose \<^verbatim>\<open>int\<close> raises ends it with the exception.
\<close>

fun slider_marks :: "(int \<times> string) list \<Rightarrow> rat option list \<Rightarrow> py_error + (int \<times> string) list" where
  "slider_marks d [] = Inr d"
| "slider_marks d (v # vs) =
     (case py_int v of
        Inl e \<Rightarrow> Inl e
      | Inr k \<Rightarrow> slider_marks (dict_set d k (''$'' @ format_int_commas k)) vs)"

record slider =
  arg_min :: "rat option"
  arg_max :: "rat option"
  arg_value :: "rat option"
  arg_marks :: "(int \<times> string) list"
  arg_step :: nat

text \<open>The arguments of \<^verbatim>\<open>dcc.Slider\<close> (lines 79 to 86).\<close>

definition billing_slider :: "(rat list \<Rightarrow> rat \<Rightarrow> rat) \<Rightarrow> row list \<Rightarrow> py_error + slider" where
  "billing_slider interpolate df =
     (let billing = map Billing_Amount df
      in case slider_marks [] (quantile interpolate billing [0, 1 / 4, 1 / 2, 3 / 4, 1]) of
           Inl e \<Rightarrow> Inl e
         | Inr marks \<Rightarrow>
             Inr \<lparr>arg_min = series_min billing, arg_max = series_max billing,
                  arg_value = series_max billing, arg_marks = marks,
                  arg_step = 100\<rparr>)"

record layout =
  summary_records :: string
  summary_billing :: string
  gender_options :: "string option list"
  billing_control :: slider
  chart_type_default :: string
  condition_options :: "string option list"

text \<open>
  \<^verbatim>\<open>app.layout\<close>, in the order in which Python evaluates its parts: the summary strings,
  the gender options, the slider, the chart type and the condition options.
\<close>

definition app_layout ::
  "(rat \<Rightarrow> string) \<Rightarrow> (rat list \<Rightarrow> rat \<Rightarrow> rat) \<Rightarrow> row list \<Rightarrow> py_error + layout" where
  "app_layout format_finite interpolate df =
     (let records = total_records_text df;
          billing = average_billing_text format_finite df;
          genders = unique (map Gender df)
      in case billing_slider interpolate df of
           Inl e \<Rightarrow> Inl e
         | Inr sl \<Rightarrow>
             Inr \<lparr>summary_records = records, summary_billing = billing,
                  gender_options = genders, billing_control = sl,
                  chart_type_default = ''line'',
                  condition_options = unique (map Medical_Condition df)\<rparr>)"

section \<open>Frames, figures and the operations on them\<close>

text \<open>
  The module works with three shapes of data frame: the patient table, the result of
  \<^verbatim>\<open>groupby('YearMonth').size().reset_index(name='Count')\<close>, whose \<^verbatim>\<open>YearMonth\<close> column
  holds periods, and the same frame once that column has been converted to strings.
\<close>

datatype frame =
    DataFrame "row list"
  | TrendFrame "(period \<times> nat) list"
  | TrendFrameStr "(string \<times> nat) list"

text \<open>
  The keyword arguments of a plotly express call. An argument the call does not pass is
  \<open>None\<close>.
\<close>

record px_call =
  px_data_frame :: frame
  px_x :: "string option"
  px_y :: "string option"
  px_names :: "string option"
  px_color :: "string option"
  px_nbins :: "nat option"
  px_barmode :: "string option"
  px_title :: string
  px_color_discrete_sequence :: "string list option"

text \<open>What a callback returns: the empty dictionary \<^verbatim>\<open>{}\<close> or a plotly express figure.\<close>

datatype figure =
    EmptyDict
  | PxHistogram px_call
  | PxPie px_call
  | PxLine px_call
  | PxBar px_call

text \<open>Python's truth value of a control's value: \<^verbatim>\<open>None\<close> and the empty string are false.\<close>

definition truthy :: "string option \<Rightarrow> bool" where
  "truthy v = (case v of None \<Rightarrow> False | Some s \<Rightarrow> s \<noteq> [])"

text \<open>
  The comparison \<^verbatim>\<open>==\<close> of one cell of a text column with the value of a control: a
  missing cell equals nothing, and a string equals neither \<^verbatim>\<open>None\<close> nor another string.
\<close>

definition cell_eq :: "string option \<Rightarrow> string option \<Rightarrow> bool" where
  "cell_eq cell v = (case cell of None \<Rightarrow> False | Some s \<Rightarrow> v = Some s)"

text \<open>
  \<^verbatim>\<open>df[df['Gender'] == selected_gender] if selected_gender else df\<close>, the expression the
  four gender callbacks start with (lines 127 to 130, 154, 185, 196).
\<close>

definition filter_gender :: "row list \<Rightarrow> string option \<Rightarrow> row list" where
  "filter_gender df selected_gender =
     (if truthy selected_gender
      then filter (\<lambda>r. cell_eq (Gender r) selected_gender) df
      else df)"

text \<open>
  \<^verbatim>\<open>df[df['Medical Condition'] == selected_condition] if selected_condition else df\<close>
  (line 165).
\<close>

definition filter_condition :: "row list \<Rightarrow> string option \<Rightarrow> row list" where
  "filter_condition df selected_condition =
     (if truthy selected_condition
      then filter (\<lambda>r. cell_eq (Medical_Condition r) selected_condition) df
      else df)"

text \<open>
  \<^verbatim>\<open>filtered_df[filtered_df['Billing Amount'] <= slider_value]\<close> (line 186): a comparison
  with NaN is false, so a row without a billing amount is dropped.
\<close>

definition filter_billing :: "row list \<Rightarrow> rat \<Rightarrow> row list" where
  "filter_billing filtered_df slider_value =
     filter (\<lambda>r. case Billing_Amount r of None \<Rightarrow> False | Some b \<Rightarrow> b \<le> slider_value) filtered_df"

text \<open>
  \<^verbatim>\<open>groupby('YearMonth').size().reset_index(name='Count')\<close>: one row for each period that
  occurs, in ascending order of the periods, with the number of rows of that period. A row
  whose period is missing belongs to no group.
\<close>

definition groupby_size :: "row list \<Rightarrow> (period \<times> nat) list" where
  "groupby_size rows =
     map (\<lambda>k. (k, length (filter (\<lambda>r. YearMonth r = Some k) rows)))
       (sort (remdups (dropna (map YearMonth rows))))"

text \<open>\<^verbatim>\<open>str\<close> of a monthly period: the year on four digits, a dash, the month on two.\<close>

definition zfill :: "nat \<Rightarrow> string \<Rightarrow> string" where
  "zfill w s = replicate (w - length s) CHR ''0'' @ s"

definition period_str :: "period \<Rightarrow> string" where
  "period_str p =
     (let y = 1970 + p div 12; m = nat (p mod 12) + 1
      in (if y < 0 then ''-'' @ zfill 4 (dec (nat (- y))) else zfill 4 (dec (nat y)))
         @ ''-'' @ zfill 2 (dec m))"

text \<open>\<^verbatim>\<open>trend_df['YearMonth'].astype(str)\<close> (line 169).\<close>

definition astype_str :: "(period \<times> nat) list \<Rightarrow> (string \<times> nat) list" where
  "astype_str trend = map (\<lambda>(p, c). (period_str p, c)) trend"

section \<open>The five callbacks, as functions of the table\<close>

text \<open>
  The module reads the table from the global variable \<^verbatim>\<open>df\<close>; here it is the first argument
  of each callback, and the values of the controls follow in the order of the source.
\<close>

text \<open>The histogram call of \<^verbatim>\<open>update_age_distribution\<close> (lines 137 to 144).\<close>

definition age_histogram :: "frame \<Rightarrow> figure" where
  "age_histogram filtered_df =
     PxHistogram
       \<lparr>px_data_frame = filtered_df,
        px_x = Some ''Age'', px_y = None, px_names = None,
        px_color = Some ''Gender'', px_nbins = Some 10, px_barmode = None,
        px_title = ''Age Distribution by Gender'',
        px_color_discrete_sequence = Some [''#636EFA'', ''#EF553B'']\<rparr>"

text \<open>\<^verbatim>\<open>update_age_distribution\<close> (lines 125 to 146).\<close>

definition update_age_distribution :: "row list \<Rightarrow> string option \<Rightarrow> figure" where
  "update_age_distribution df selected_gender =
     (let filtered_df = filter_gender df selected_gender
      in if filtered_df = [] then EmptyDict
         else age_histogram (DataFrame filtered_df))"

text \<open>The pie call of \<^verbatim>\<open>update_condition_distribution\<close> (line 155).\<close>

definition condition_pie :: "frame \<Rightarrow> figure" where
  "condition_pie filtered_df =
     PxPie
       \<lparr>px_data_frame = filtered_df,
        px_x = None, px_y = None, px_names = Some ''Medical Condition'',
        px_color = None, px_nbins = None, px_barmode = None,
        px_title = ''Medical Condition Distribution'',
        px_color_discrete_sequence = None\<rparr>"

text \<open>\<^verbatim>\<open>update_condition_distribution\<close> (lines 153 to 156).\<close>

definition update_condition_distribution :: "row list \<Rightarrow> string option \<Rightarrow> figure" where
  "update_condition_distribution df selected_gender =
     (let filtered_df = filter_gender df selected_gender
      in condition_pie (DataFrame filtered_df))"

text \<open>
  The two plotly express calls of \<^verbatim>\<open>update_admission_trends\<close> (lines 171 to 174) share
  their arguments; the chart type chooses between them, and every value other than the
  string \<^verbatim>\<open>line\<close> takes the second branch.
\<close>

definition trend_call :: "frame \<Rightarrow> px_call" where
  "trend_call trend_df =
     \<lparr>px_data_frame = trend_df,
      px_x = Some ''YearMonth'', px_y = Some ''Count'', px_names = None,
      px_color = None, px_nbins = None, px_barmode = None,
      px_title = ''Admission Trends Over Time'',
      px_color_discrete_sequence = None\<rparr>"

definition trend_figure :: "string option \<Rightarrow> frame \<Rightarrow> figure" where
  "trend_figure chart_type trend_df =
     (if chart_type = Some ''line''
      then PxLine (trend_call trend_df)
      else PxBar (trend_call trend_df))"

text \<open>\<^verbatim>\<open>update_admission_trends\<close> (lines 164 to 176).\<close>

definition update_admission_trends ::
  "row list \<Rightarrow> string option \<Rightarrow> string option \<Rightarrow> figure" where
  "update_admission_trends df chart_type selected_condition =
     (let filtered_df = filter_condition df selected_condition;
          trend_df = groupby_size filtered_df;
          trend_df = astype_str trend_df
      in trend_figure chart_type (TrendFrameStr trend_df))"

text \<open>The histogram call of \<^verbatim>\<open>update_billing_distribution\<close> (line 187).\<close>

definition billing_histogram :: "frame \<Rightarrow> figure" where
  "billing_histogram filtered_df =
     PxHistogram
       \<lparr>px_data_frame = filtered_df,
        px_x = Some ''Billing Amount'', px_y = None, px_names = None,
        px_color = None, px_nbins = Some 10, px_barmode = None,
        px_title = ''Billing Amount Distribution'',
        px_color_discrete_sequence = None\<rparr>"

text \<open>\<^verbatim>\<open>update_billing_distribution\<close> (lines 184 to 188).\<close>

definition update_billing_distribution :: "row list \<Rightarrow> string option \<Rightarrow> rat \<Rightarrow> figure" where
  "update_billing_distribution df selected_gender slider_value =
     (let filtered_df = filter_gender df selected_gender;
          filtered_df = filter_billing filtered_df slider_value
      in billing_histogram (DataFrame filtered_df))"

text \<open>
  The bar call of \<^verbatim>\<open>update_insurance_comparison\<close> (lines 197 to 201). The palette
  \<^verbatim>\<open>px.colors.qualitative.Set2\<close> is a constant of plotly, taken as the parameter \<open>Set2\<close>.
\<close>

definition insurance_bar :: "string list \<Rightarrow> frame \<Rightarrow> figure" where
  "insurance_bar Set2 filtered_df =
     PxBar
       \<lparr>px_data_frame = filtered_df,
        px_x = Some ''Insurance Provider'', px_y = Some ''Billing Amount'',
        px_names = None, px_color = Some ''Medical Condition'',
        px_nbins = None, px_barmode = Some ''group'',
        px_title = ''Insurance Provider Billing Comparison'',
        px_color_discrete_sequence = Some Set2\<rparr>"

text \<open>\<^verbatim>\<open>update_insurance_comparison\<close> (lines 195 to 202).\<close>

definition update_insurance_comparison :: "string list \<Rightarrow> row list \<Rightarrow> string option \<Rightarrow> figure" where
  "update_insurance_comparison Set2 df selected_gender =
     (let filtered_df = filter_gender df selected_gender
      in insurance_bar Set2 (DataFrame filtered_df))"

section \<open>The callbacks on a store of frames\<close>

text \<open>
  Data frames are mutable objects, and the callbacks hold references to them: without a
  selection \<^verbatim>\<open>filtered_df\<close> is the very object \<^verbatim>\<open>df\<close>, and line 169 assigns to a column
  of \<^verbatim>\<open>trend_df\<close>. To follow what a callback can change, the frames live in a store, a
  list indexed by references. The global \<^verbatim>\<open>df\<close> is at reference 0. Indexing with a mask
  and \<^verbatim>\<open>groupby(...).size().reset_index(...)\<close> build a new frame; a plotly express call
  reads its frame and keeps the values.
\<close>

type_synonym ref = nat

type_synonym store = "frame list"

definition df_ref :: ref where
  "df_ref = 0"

definition alloc :: "frame \<Rightarrow> store \<Rightarrow> ref \<times> store" where
  "alloc f s = (length s, s @ [f])"

definition lookup :: "store \<Rightarrow> ref \<Rightarrow> frame option" where
  "lookup s r = (if r < length s then Some (s ! r) else None)"

definition get_rows :: "store \<Rightarrow> ref \<Rightarrow> row list option" where
  "get_rows s r = (case lookup s r of Some (DataFrame rows) \<Rightarrow> Some rows | _ \<Rightarrow> None)"

definition get_trend :: "store \<Rightarrow> ref \<Rightarrow> (period \<times> nat) list option" where
  "get_trend s r = (case lookup s r of Some (TrendFrame t) \<Rightarrow> Some t | _ \<Rightarrow> None)"

text \<open>
  \<^verbatim>\<open>df[df['Gender'] == selected_gender] if selected_gender else df\<close> on the store: a new
  frame in the first branch, the reference of \<^verbatim>\<open>df\<close> itself in the second.
\<close>

definition filter_gender_ref :: "string option \<Rightarrow> store \<Rightarrow> (ref \<times> store) option" where
  "filter_gender_ref selected_gender s = do {
     df \<leftarrow> get_rows s df_ref;
     Some (if truthy selected_gender
           then alloc (DataFrame (filter (\<lambda>r. cell_eq (Gender r) selected_gender) df)) s
           else (df_ref, s))
   }"

definition filter_condition_ref :: "string option \<Rightarrow> store \<Rightarrow> (ref \<times> store) option" where
  "filter_condition_ref selected_condition s = do {
     df \<leftarrow> get_rows s df_ref;
     Some (if truthy selected_condition
           then alloc (DataFrame (filter (\<lambda>r. cell_eq (Medical_Condition r) selected_condition) df)) s
           else (df_ref, s))
   }"

definition update_age_distribution_cb :: "string option \<Rightarrow> store \<Rightarrow> (figure \<times> store) option" where
  "update_age_distribution_cb selected_gender s = do {
     (filtered_df, s) \<leftarrow> filter_gender_ref selected_gender s;
     rows \<leftarrow> get_rows s filtered_df;
     if rows = [] then Some (EmptyDict, s)
     else Some (age_histogram (DataFrame rows), s)
   }"

definition update_condition_distribution_cb ::
  "string option \<Rightarrow> store \<Rightarrow> (figure \<times> store) option" where
  "update_condition_distribution_cb selected_gender s = do {
     (filtered_df, s) \<leftarrow> filter_gender_ref selected_gender s;
     rows \<leftarrow> get_rows s filtered_df;
     Some (condition_pie (DataFrame rows), s)
   }"

definition update_admission_trends_cb ::
  "string option \<Rightarrow> string option \<Rightarrow> store \<Rightarrow> (figure \<times> store) option" where
  "update_admission_trends_cb chart_type selected_condition s = do {
     (filtered_df, s) \<leftarrow> filter_condition_ref selected_condition s;
     rows \<leftarrow> get_rows s filtered_df;
     (trend_df, s) \<leftarrow> Some (alloc (TrendFrame (groupby_size rows)) s);
     trend \<leftarrow> get_trend s trend_df;
     s \<leftarrow> Some (s[trend_df := TrendFrameStr (astype_str trend)]);
     plotted \<leftarrow> lookup s trend_df;
     Some (trend_figure chart_type plotted, s)
   }"

definition update_billing_distribution_cb ::
  "string option \<Rightarrow> rat \<Rightarrow> store \<Rightarrow> (figure \<times> store) option" where
  "update_billing_distribution_cb selected_gender slider_value s = do {
     (filtered_df, s) \<leftarrow> filter_gender_ref selected_gender s;
     rows \<leftarrow> get_rows s filtered_df;
     (filtered_df, s) \<leftarrow> Some (alloc (DataFrame (filter_billing rows slider_value)) s);
     rows \<leftarrow> get_rows s filtered_df;
     Some (billing_histogram (DataFrame rows), s)
   }"

definition update_insurance_comparison_cb ::
  "string list \<Rightarrow> string option \<Rightarrow> store \<Rightarrow> (figure \<times> store) option" where
  "update_insurance_comparison_cb Set2 selected_gender s = do {
     (filtered_df, s) \<leftarrow> filter_gender_ref selected_gender s;
     rows \<leftarrow> get_rows s filtered_df;
     Some (insurance_bar Set2 (DataFrame rows), s)
   }"

section \<open>What the renderer draws for a histogram\<close>

text \<open>
  A plotly express histogram carries values, not bins. With a \<^verbatim>\<open>color\<close> column it has one
  series for each value of that column, in the order in which the values first occur, and
  a row whose cell in that column is missing is put in no series. The renderer bins the
  values of the \<^verbatim>\<open>x\<close> column that are present. The rule that maps a value to the index
  of its bin belongs to the renderer (\<^verbatim>\<open>nbins\<close> is an upper bound it is given) and is the
  parameter \<open>bin_of\<close>; the bins drawn run from index 0 to the largest index in use, the
  same for all series.
\<close>

definition num_column :: "string \<Rightarrow> (row \<Rightarrow> rat option) option" where
  "num_column name =
     (if name = ''Age'' then Some (\<lambda>r. map_option of_int (Age r))
      else if name = ''Billing Amount'' then Some Billing_Amount
      else None)"

definition str_column :: "string \<Rightarrow> (row \<Rightarrow> string option) option" where
  "str_column name =
     (if name = ''Gender'' then Some Gender
      else if name = ''Medical Condition'' then Some Medical_Condition
      else if name = ''Insurance Provider'' then Some Insurance_Provider
      else None)"

definition histogram_series :: "px_call \<Rightarrow> (string \<times> rat list) list option" where
  "histogram_series c =
     (case (px_data_frame c, px_x c) of
        (DataFrame rows, Some xn) \<Rightarrow>
          (case num_column xn of
             None \<Rightarrow> None
           | Some xf \<Rightarrow>
               (case px_color c of
                  None \<Rightarrow> Some [([], dropna (map xf rows))]
                | Some cn \<Rightarrow>
                    (case str_column cn of
                       None \<Rightarrow> None
                     | Some cf \<Rightarrow>
                         Some (map (\<lambda>g. (g, dropna (map xf (filter (\<lambda>r. cf r = Some g) rows))))
                                 (unique (dropna (map cf rows)))))))
      | _ \<Rightarrow> None)"

definition last_bin :: "(rat \<Rightarrow> nat) \<Rightarrow> rat list \<Rightarrow> nat" where
  "last_bin bin_of xs = foldr (\<lambda>x m. max (bin_of x) m) xs 0"

definition bin_range :: "(rat \<Rightarrow> nat) \<Rightarrow> rat list \<Rightarrow> nat list" where
  "bin_range bin_of xs = (if xs = [] then [] else [0..<Suc (last_bin bin_of xs)])"

definition bin_counts :: "nat list \<Rightarrow> (rat \<Rightarrow> nat) \<Rightarrow> rat list \<Rightarrow> nat list" where
  "bin_counts bins bin_of xs = map (\<lambda>i. length (filter (\<lambda>x. bin_of x = i) xs)) bins"

definition histogram_bins :: "(rat \<Rightarrow> nat) \<Rightarrow> figure \<Rightarrow> (string \<times> nat list) list option" where
  "histogram_bins bin_of fig =
     (case fig of
        PxHistogram c \<Rightarrow>
          (case histogram_series c of
             Some series \<Rightarrow>
               (let bins = bin_range bin_of (concat (map snd series))
                in Some (map (\<lambda>(g, xs). (g, bin_counts bins bin_of xs)) series))
           | None \<Rightarrow> None)
      | _ \<Rightarrow> None)"


text \<open>The number of rows a figure was built from; the empty dictionary has none.\<close>

definition frame_size :: "frame \<Rightarrow> nat" where
  "frame_size f =
     (case f of
        DataFrame rows \<Rightarrow> length rows
      | TrendFrame t \<Rightarrow> length t
      | TrendFrameStr t \<Rightarrow> length t)"

definition figure_rows :: "figure \<Rightarrow> nat" where
  "figure_rows fig =
     (case fig of
        EmptyDict \<Rightarrow> 0
      | PxHistogram c \<Rightarrow> frame_size (px_data_frame c)
      | PxPie c \<Rightarrow> frame_size (px_data_frame c)
      | PxLine c \<Rightarrow> frame_size (px_data_frame c)
      | PxBar c \<Rightarrow> frame_size (px_data_frame c))"

section \<open>The filter as the specification words it\<close>

text \<open>
  The specification describes the result of a set filter as the rows whose column equals the
  selected value. These two definitions follow its words, to be compared with
  \<open>filter_gender\<close> and \<open>filter_condition\<close>, which follow the source.
\<close>

definition rows_with_gender :: "row list \<Rightarrow> string \<Rightarrow> row list" where
  "rows_with_gender T g = filter (\<lambda>r. Gender r = Some g) T"

definition rows_with_condition :: "row list \<Rightarrow> string \<Rightarrow> row list" where
  "rows_with_condition T c = filter (\<lambda>r. Medical_Condition r = Some c) T"

section \<open>Sample rows\<close>

text \<open>
  Three rows used where a statement is evaluated on a concrete table. The third has an
  empty gender cell in the file.
\<close>

abbreviation (input) patient_M :: row where
  "patient_M \<equiv>
     \<lparr>Age = Some 30, Gender = Some ''M'', Medical_Condition = Some ''Asthma'',
      Insurance_Provider = Some ''Aetna'', Billing_Amount = Some 100,
      YearMonth = Some 639\<rparr>"

abbreviation (input) patient_F :: row where
  "patient_F \<equiv>
     \<lparr>Age = Some 45, Gender = Some ''F'', Medical_Condition = Some ''Flu'',
      Insurance_Provider = Some ''Cigna'', Billing_Amount = None,
      YearMonth = Some 640\<rparr>"


section \<open>The summary and the layout\<close>

text \<open>
  Claim C2. On a loaded table of two rows, the first with gender M and billing amount 100,
  the second with gender F and a missing billing amount (the unparsable text has become
  NaN at load), whatever the other columns hold: the average billing amount is 100, since
  the mean leaves the missing value out, and the number of records is 2.
\<close>

theorem summary_missing_billing:
  "avg_billing
     [\<lparr>Age = a1, Gender = Some ''M'', Medical_Condition = c1, Insurance_Provider = i1,
       Billing_Amount = Some 100, YearMonth = p1\<rparr>,
      \<lparr>Age = a2, Gender = Some ''F'', Medical_Condition = c2, Insurance_Provider = i2,
       Billing_Amount = None, YearMonth = p2\<rparr>] = Some 100
   \<and> num_records
     [\<lparr>Age = a1, Gender = Some ''M'', Medical_Condition = c1, Insurance_Provider = i1,
       Billing_Amount = Some 100, YearMonth = p1\<rparr>,
      \<lparr>Age = a2, Gender = Some ''F'', Medical_Condition = c2, Insurance_Provider = i2,
       Billing_Amount = None, YearMonth = p2\<rparr>] = 2"
  by (simp add: avg_billing_def mean_def dropna_def num_records_def)

lemma dropna_all_None: "\<forall>c\<in>set cs. c = None \<Longrightarrow> dropna cs = []"
  by (induction cs) (simp_all add: dropna_def)

text \<open>
  When no billing amount is present the average is NaN, every quantile of line 84 is NaN,
  and \<^verbatim>\<open>int\<close> raises on the first of them: the layout is not built.
\<close>

lemma billing_slider_all_missing:
  "\<forall>r\<in>set df. Billing_Amount r = None \<Longrightarrow> billing_slider interpolate df = Inl ValueError"
  by (simp add: billing_slider_def quantile_def dropna_all_None py_int_def)

lemma app_layout_all_missing:
  "\<forall>r\<in>set df. Billing_Amount r = None \<Longrightarrow>
     avg_billing df = None \<and> app_layout format_finite interpolate df = Inl ValueError"
  by (simp add: app_layout_def billing_slider_all_missing avg_billing_def mean_def
      dropna_all_None)

text \<open>With a billing amount present the layout is built, and the slider has its marks.\<close>

lemma app_layout_example:
  "app_layout format_finite (\<lambda>vs q. hd vs) [patient_M, patient_F] =
     Inr \<lparr>summary_records = ''Total Patient Records: 2'',
          summary_billing = ''Average Billing Amount: $'' @ format_finite 100,
          gender_options = [Some ''M'', Some ''F''],
          billing_control =
            \<lparr>arg_min = Some 100, arg_max = Some 100, arg_value = Some 100,
             arg_marks = [(100, ''$100'')], arg_step = 100\<rparr>,
          chart_type_default = ''line'',
          condition_options = [Some ''Asthma'', Some ''Flu'']\<rparr>"
  by (simp add: app_layout_def billing_slider_def quantile_def dropna_def py_int_def
      series_min_def series_max_def total_records_text_def average_billing_text_def
      format_comma_2f_def avg_billing_def mean_def num_records_def format_int_commas_def
      commas_def dec.simps digit_char_def)

text \<open>
  Claim C5 on a table whose one row has no billing amount. The average is NaN; the summary
  string of line 34 would read \<^verbatim>\<open>Average Billing Amount: $nan\<close>, which holds no N/A; and
  the layout that holds it is not built, because \<^verbatim>\<open>int\<close> raises \<^verbatim>\<open>ValueError\<close> on the NaN
  quantiles of line 84. The module shows neither N/A nor any summary.
\<close>

theorem layout_raises_when_billing_all_missing:
  "avg_billing [patient_F] = None
   \<and> app_layout format_finite interpolate [patient_F] = Inl ValueError
   \<and> average_billing_text format_finite [patient_F] = ''Average Billing Amount: $nan''
   \<and> \<not> sublist ''N/A'' (average_billing_text format_finite [patient_F])"
  by (simp add: app_layout_def billing_slider_def quantile_def py_int_def
      average_billing_text_def avg_billing_def mean_def dropna_def format_comma_2f_def
      sublist_Cons_right)

section \<open>The filters\<close>

lemma filter_cell_eq_Some:
  "filter (\<lambda>r. cell_eq (f r) (Some g)) T = filter (\<lambda>r. f r = Some g) T"
  by (rule filter_cong) (auto simp: cell_eq_def split: option.splits)

text \<open>
  Claim C1, as the code has it. A selection that is a non-empty string \<open>g\<close> restricts the
  table to exactly the rows whose gender (for the trends view: medical condition) is \<open>g\<close>,
  in each of the five callbacks; an unset selection leaves the table as it is.
\<close>

theorem filter_selection_nonempty:
  "g \<noteq> [] \<Longrightarrow>
     filter_gender T (Some g) = rows_with_gender T g
   \<and> filter_condition T (Some g) = rows_with_condition T g
   \<and> filter_gender T None = T
   \<and> filter_condition T None = T
   \<and> update_age_distribution T (Some g) =
       (if rows_with_gender T g = [] then EmptyDict
        else age_histogram (DataFrame (rows_with_gender T g)))
   \<and> update_age_distribution T None =
       (if T = [] then EmptyDict else age_histogram (DataFrame T))
   \<and> update_condition_distribution T (Some g) = condition_pie (DataFrame (rows_with_gender T g))
   \<and> update_condition_distribution T None = condition_pie (DataFrame T)
   \<and> update_billing_distribution T (Some g) c =
       billing_histogram (DataFrame (filter_billing (rows_with_gender T g) c))
   \<and> update_billing_distribution T None c = billing_histogram (DataFrame (filter_billing T c))
   \<and> update_insurance_comparison Set2 T (Some g) =
       insurance_bar Set2 (DataFrame (rows_with_gender T g))
   \<and> update_insurance_comparison Set2 T None = insurance_bar Set2 (DataFrame T)
   \<and> update_admission_trends T chart_type (Some g) =
       trend_figure chart_type (TrendFrameStr (astype_str (groupby_size (rows_with_condition T g))))
   \<and> update_admission_trends T chart_type None =
       trend_figure chart_type (TrendFrameStr (astype_str (groupby_size T)))"
  by (simp add: filter_gender_def filter_condition_def truthy_def rows_with_gender_def
      rows_with_condition_def update_age_distribution_def update_condition_distribution_def
      update_billing_distribution_def update_insurance_comparison_def
      update_admission_trends_def Let_def filter_cell_eq_Some)

text \<open>The statement above for the selection M on a table of two rows.\<close>

theorem filter_selection_nonempty_witness:
  "''M'' \<noteq> []
   \<and> filter_gender [patient_M, patient_F] (Some ''M'') = [patient_M]
   \<and> rows_with_gender [patient_M, patient_F] ''M'' = [patient_M]
   \<and> filter_gender [patient_M, patient_F] None = [patient_M, patient_F]"
  using filter_selection_nonempty [of "''M''" "[patient_M, patient_F]"]
  by (simp add: rows_with_gender_def)

text \<open>
  Claim C1 as the specification words it fails for the selection that is the empty string,
  on a table of one row of gender M: no row has the empty string as its gender, so the rows
  whose gender equals the selection are none, and the filter returns the row.
\<close>

theorem filter_gender_empty_string_counterexample:
  "filter_gender [patient_M] (Some '''') = [patient_M]
   \<and> rows_with_gender [patient_M] '''' = []
   \<and> filter_gender [patient_M] (Some '''') \<noteq> rows_with_gender [patient_M] ''''"
  by (simp add: filter_gender_def truthy_def rows_with_gender_def)

text \<open>
  Claim C9. The empty string as the selected gender is no filter: the filtered table is the
  whole table, also when rows have the empty string as their gender, and each of the four
  callbacks that read the gender returns what it returns for an unset selection.
\<close>

theorem empty_string_gender_no_filter:
  "filter_gender df (Some '''') = df
   \<and> update_age_distribution df (Some '''') = update_age_distribution df None
   \<and> update_condition_distribution df (Some '''') = update_condition_distribution df None
   \<and> update_billing_distribution df (Some '''') c = update_billing_distribution df None c
   \<and> update_insurance_comparison Set2 df (Some '''') = update_insurance_comparison Set2 df None"
  by (simp add: filter_gender_def truthy_def update_age_distribution_def
      update_condition_distribution_def update_billing_distribution_def
      update_insurance_comparison_def)

section \<open>Admission trends\<close>

text \<open>
  Claim C3. For every table and every selected condition, the periods of the buckets of the
  Admission Trends view, in the order in which the view lists them, are strictly
  increasing: each bucket is a later month than the one before it. The figure plots
  exactly these buckets, in this order, each under the string of its period.
\<close>

theorem admission_trends_strictly_increasing:
  "sorted_wrt (<) (map fst (groupby_size (filter_condition df selected_condition)))
   \<and> update_admission_trends df chart_type selected_condition =
       trend_figure chart_type
         (TrendFrameStr (map (\<lambda>(p, n). (period_str p, n))
            (groupby_size (filter_condition df selected_condition))))"
  by (simp add: groupby_size_def comp_def strict_sorted_iff update_admission_trends_def
      astype_str_def Let_def)

text \<open>
  Claim C10. For every chart type other than the string \<^verbatim>\<open>line\<close>, unset or any other
  string, the Admission Trends view returns the bar chart of the buckets.
\<close>

theorem admission_trends_bar_default:
  "chart_type \<noteq> Some ''line'' \<Longrightarrow>
     update_admission_trends df chart_type selected_condition =
       PxBar (trend_call (TrendFrameStr
         (astype_str (groupby_size (filter_condition df selected_condition)))))"
  by (simp add: update_admission_trends_def trend_figure_def)

text \<open>The statement above for an unset chart type and for a string that is no chart type.\<close>

theorem admission_trends_bar_default_witness:
  "None \<noteq> Some ''line'' \<and> Some ''pie'' \<noteq> Some ''line''
   \<and> update_admission_trends [patient_M, patient_F] None None =
       PxBar (trend_call (TrendFrameStr [(''2023-04'', 1), (''2023-05'', 1)]))
   \<and> update_admission_trends [patient_M, patient_F] (Some ''pie'') None =
       PxBar (trend_call (TrendFrameStr [(''2023-04'', 1), (''2023-05'', 1)]))"
  using admission_trends_bar_default [of None "[patient_M, patient_F]" None]
    admission_trends_bar_default [of "Some ''pie''" "[patient_M, patient_F]" None]
  by (simp add: filter_condition_def truthy_def groupby_size_def astype_str_def
      period_str_def zfill_def dec.simps digit_char_def dropna_def)

section \<open>Billing distribution\<close>

lemma filter_billing_idem: "filter_billing (filter_billing T c) c = filter_billing T c"
  by (simp add: filter_billing_def)

lemma filter_gender_idem: "filter_gender (filter_gender T g) g = filter_gender T g"
  by (simp add: filter_gender_def)

lemma filter_gender_billing_commute:
  "filter_gender (filter_billing T c) g = filter_billing (filter_gender T g) c"
  by (auto simp add: filter_gender_def filter_billing_def intro: filter_cong)

text \<open>
  Claim C8. Filtering with the ceiling is idempotent: applied to its own output, the filter
  \<^verbatim>\<open>Billing Amount <= ceiling\<close> keeps every row. So the Billing Distribution view gives, on
  the rows it has kept, with the same gender and the same ceiling, the chart it gave on
  the table, for every table, gender selection and ceiling.
\<close>

theorem billing_filter_idempotent:
  "filter_billing (filter_billing T c) c = filter_billing T c
   \<and> update_billing_distribution (filter_billing (filter_gender df g) c) g c
       = update_billing_distribution df g c"
  by (simp add: update_billing_distribution_def filter_billing_idem
      filter_gender_billing_commute filter_gender_idem)

section \<open>The callbacks and the store\<close>

lemma get_rows_df [simp]: "get_rows (DataFrame df # tmp) df_ref = Some df"
  by (simp add: get_rows_def lookup_def df_ref_def)

lemma get_rows_fresh [simp]:
  "get_rows (DataFrame df # tmp @ [DataFrame rows]) (Suc (length tmp)) = Some rows"
  by (simp add: get_rows_def lookup_def nth_append)

lemma filter_gender_ref_eq:
  "filter_gender_ref g (DataFrame df # tmp) =
     Some (if truthy g
           then (Suc (length tmp), DataFrame df # tmp @ [DataFrame (filter_gender df g)])
           else (df_ref, DataFrame df # tmp))"
  by (simp add: filter_gender_ref_def filter_gender_def alloc_def)

lemma filter_condition_ref_eq:
  "filter_condition_ref g (DataFrame df # tmp) =
     Some (if truthy g
           then (Suc (length tmp), DataFrame df # tmp @ [DataFrame (filter_condition df g)])
           else (df_ref, DataFrame df # tmp))"
  by (simp add: filter_condition_ref_def filter_condition_def alloc_def)

text \<open>
  Each callback, run on a store that holds the table at reference 0, returns the figure of
  the function of the table above, and a store that is the old one with the new frames
  appended.
\<close>

lemma update_age_distribution_cb_eq:
  "update_age_distribution_cb g (DataFrame df # tmp) =
     Some (update_age_distribution df g,
           if truthy g then DataFrame df # tmp @ [DataFrame (filter_gender df g)]
           else DataFrame df # tmp)"
  by (simp add: update_age_distribution_cb_def filter_gender_ref_eq
      update_age_distribution_def filter_gender_def)

lemma update_condition_distribution_cb_eq:
  "update_condition_distribution_cb g (DataFrame df # tmp) =
     Some (update_condition_distribution df g,
           if truthy g then DataFrame df # tmp @ [DataFrame (filter_gender df g)]
           else DataFrame df # tmp)"
  by (simp add: update_condition_distribution_cb_def filter_gender_ref_eq
      update_condition_distribution_def filter_gender_def)

lemma update_insurance_comparison_cb_eq:
  "update_insurance_comparison_cb Set2 g (DataFrame df # tmp) =
     Some (update_insurance_comparison Set2 df g,
           if truthy g then DataFrame df # tmp @ [DataFrame (filter_gender df g)]
           else DataFrame df # tmp)"
  by (simp add: update_insurance_comparison_cb_def filter_gender_ref_eq
      update_insurance_comparison_def filter_gender_def)

lemma update_billing_distribution_cb_eq:
  "update_billing_distribution_cb g c (DataFrame df # tmp) =
     Some (update_billing_distribution df g c,
           (if truthy g then DataFrame df # tmp @ [DataFrame (filter_gender df g)]
            else DataFrame df # tmp)
           @ [DataFrame (filter_billing (filter_gender df g) c)])"
  apply (simp add: update_billing_distribution_cb_def filter_gender_ref_eq
      update_billing_distribution_def alloc_def)
  apply (simp add: filter_gender_def get_rows_def lookup_def nth_append)
  done

lemma update_admission_trends_cb_eq:
  "update_admission_trends_cb chart_type g (DataFrame df # tmp) =
     Some (update_admission_trends df chart_type g,
           (if truthy g then DataFrame df # tmp @ [DataFrame (filter_condition df g)]
            else DataFrame df # tmp)
           @ [TrendFrameStr (astype_str (groupby_size (filter_condition df g)))])"
  apply (simp add: update_admission_trends_cb_def filter_condition_ref_eq
      update_admission_trends_def alloc_def)
  apply (simp add: filter_condition_def get_rows_def get_trend_def lookup_def nth_append)
  done

text \<open>
  Claim C7. No callback changes the table. Run with any values of its controls on a store
  whose reference 0 holds the table \<open>df\<close>, beside any frames \<open>tmp\<close> that earlier calls
  have left, each of the five callbacks returns its figure, and in the store it returns
  reference 0 still holds \<open>df\<close> and every frame that was there before is unchanged.
\<close>

theorem callbacks_preserve_table:
  "map_option (\<lambda>(fig, s'). (fig, lookup s' df_ref, take (Suc (length tmp)) s'))
     (update_age_distribution_cb selected_gender (DataFrame df # tmp))
     = Some (update_age_distribution df selected_gender,
             Some (DataFrame df), DataFrame df # tmp)
   \<and> map_option (\<lambda>(fig, s'). (fig, lookup s' df_ref, take (Suc (length tmp)) s'))
     (update_condition_distribution_cb selected_gender (DataFrame df # tmp))
     = Some (update_condition_distribution df selected_gender,
             Some (DataFrame df), DataFrame df # tmp)
   \<and> map_option (\<lambda>(fig, s'). (fig, lookup s' df_ref, take (Suc (length tmp)) s'))
     (update_admission_trends_cb chart_type selected_condition (DataFrame df # tmp))
     = Some (update_admission_trends df chart_type selected_condition,
             Some (DataFrame df), DataFrame df # tmp)
   \<and> map_option (\<lambda>(fig, s'). (fig, lookup s' df_ref, take (Suc (length tmp)) s'))
     (update_billing_distribution_cb selected_gender slider_value (DataFrame df # tmp))
     = Some (update_billing_distribution df selected_gender slider_value,
             Some (DataFrame df), DataFrame df # tmp)
   \<and> map_option (\<lambda>(fig, s'). (fig, lookup s' df_ref, take (Suc (length tmp)) s'))
     (update_insurance_comparison_cb Set2 selected_gender (DataFrame df # tmp))
     = Some (update_insurance_comparison Set2 df selected_gender,
             Some (DataFrame df), DataFrame df # tmp)"
  by (simp add: update_age_distribution_cb_eq update_condition_distribution_cb_eq
      update_admission_trends_cb_eq update_billing_distribution_cb_eq
      update_insurance_comparison_cb_eq lookup_def df_ref_def)

section \<open>Empty results and the bins of the histograms\<close>

lemma filter_billing_below:
  "\<forall>r\<in>set rows. case Billing_Amount r of None \<Rightarrow> True | Some b \<Rightarrow> c < b \<Longrightarrow>
   filter_billing rows c = []"
  by (auto simp: filter_billing_def filter_empty_conv split: option.splits)

lemma billing_bins_empty:
  "histogram_bins bin_of (billing_histogram (DataFrame [])) = Some [([], [])]"
  by (simp add: histogram_bins_def billing_histogram_def histogram_series_def num_column_def
      dropna_def bin_counts_def bin_range_def)

text \<open>
  Claim C4. For every table and gender selection, if the ceiling is below every billing
  amount present in the rows of that gender, the Billing Distribution view returns a
  figure and raises nothing: the histogram call on a frame of no rows, a chart without
  data, whose one series has no value and no bin under any binning rule. The callback on
  the store returns that figure too.
\<close>

theorem billing_distribution_below_minimum:
  "\<forall>r\<in>set (filter_gender df g). case Billing_Amount r of None \<Rightarrow> True | Some b \<Rightarrow> c < b \<Longrightarrow>
     update_billing_distribution df g c = billing_histogram (DataFrame [])
   \<and> figure_rows (update_billing_distribution df g c) = 0
   \<and> histogram_bins bin_of (update_billing_distribution df g c) = Some [([], [])]
   \<and> map_option fst (update_billing_distribution_cb g c (DataFrame df # tmp))
       = Some (billing_histogram (DataFrame []))"
  by (simp add: update_billing_distribution_cb_eq update_billing_distribution_def
      filter_billing_below billing_bins_empty)
     (simp add: figure_rows_def billing_histogram_def frame_size_def)

text \<open>
  The statement above for the ceiling 50 on a table whose one row of gender M has the
  billing amount 100.
\<close>

theorem billing_distribution_below_minimum_witness:
  "map Billing_Amount (filter_gender [patient_M, patient_F] (Some ''M'')) = [Some 100]
   \<and> (50 :: rat) < 100
   \<and> update_billing_distribution [patient_M, patient_F] (Some ''M'') 50
       = billing_histogram (DataFrame [])
   \<and> figure_rows (update_billing_distribution [patient_M, patient_F] (Some ''M'') 50) = 0
   \<and> map_option fst
        (update_billing_distribution_cb (Some ''M'') 50 [DataFrame [patient_M, patient_F]])
       = Some (billing_histogram (DataFrame []))"
proof -
  have rows: "map Billing_Amount (filter_gender [patient_M, patient_F] (Some ''M'')) = [Some 100]"
    by (simp add: filter_gender_def truthy_def cell_eq_def)
  have below: "\<forall>r\<in>set (filter_gender [patient_M, patient_F] (Some ''M'')).
      case Billing_Amount r of None \<Rightarrow> True | Some b \<Rightarrow> 50 < b"
    by (simp add: filter_gender_def truthy_def cell_eq_def)
  have less: "(50 :: rat) < 100"
    by simp
  show ?thesis
    using rows less billing_distribution_below_minimum [OF below, of "\<lambda>x. 0" "[]"] by blast
qed

subsection \<open>Series partition the rows that have a colour\<close>

lemma set_unique [simp]: "set (unique xs) = set xs"
  by (induction xs rule: unique.induct) auto









subsection \<open>Bins partition the values\<close>












end
